theory Spec2Isabelle
  imports Complex_Main
begin

section \<open>The process supervisor and resource monitor of \<^verbatim>\<open>src/core/process.js\<close>\<close>

text \<open>
  The module keeps one global array \<^verbatim>\<open>PROCESSES\<close> of process objects, spawns one child
  per test script, converts the child's \<^verbatim>\<open>close\<close> and \<^verbatim>\<open>error\<close> events into
  test result records and polls the registered processes from a timer. The embedding
  threads an explicit world state through every function. Process objects are shared
  between the registry, the event listeners and the asynchronous usage callbacks, so they
  live in a store addressed by \<open>addr\<close>; engine objects are passed by reference and live in a
  store addressed by \<open>eref\<close>. Everything the module does to the outside (spawning, killing,
  querying, printing, calling back) is appended to a chronological trace.
\<close>

subsection \<open>JavaScript values\<close>

text \<open>
  Samples are JavaScript numbers. Finite doubles are abstracted to reals; the two
  infinities and NaN are kept, because \<^verbatim>\<open>Math.max\<close> and \<^verbatim>\<open>Math.min\<close> produce them.
\<close>

datatype jsnum = Fin real | PInf | NInf | NaN

fun js_max2 :: "jsnum \<Rightarrow> jsnum \<Rightarrow> jsnum" where
  "js_max2 NaN _ = NaN"
| "js_max2 _ NaN = NaN"
| "js_max2 PInf _ = PInf"
| "js_max2 _ PInf = PInf"
| "js_max2 NInf y = y"
| "js_max2 x NInf = x"
| "js_max2 (Fin a) (Fin b) = Fin (max a b)"

fun js_min2 :: "jsnum \<Rightarrow> jsnum \<Rightarrow> jsnum" where
  "js_min2 NaN _ = NaN"
| "js_min2 _ NaN = NaN"
| "js_min2 NInf _ = NInf"
| "js_min2 _ NInf = NInf"
| "js_min2 PInf y = y"
| "js_min2 x PInf = x"
| "js_min2 (Fin a) (Fin b) = Fin (min a b)"

text \<open>
  \<^verbatim>\<open>Math.max.apply(null, xs)\<close>: the largest argument, NaN as soon as one argument is
  NaN, and \<^verbatim>\<open>-Infinity\<close> for no argument at all. \<^verbatim>\<open>Math.min\<close> is dual. (The engine's
  limit on the number of arguments of \<^verbatim>\<open>apply\<close> is outside the model.)
\<close>

definition Math_max :: "jsnum list \<Rightarrow> jsnum" where
  "Math_max xs = foldl js_max2 NInf xs"

definition Math_min :: "jsnum list \<Rightarrow> jsnum" where
  "Math_min xs = foldl js_min2 PInf xs"

text \<open>The order of JavaScript's \<^verbatim>\<open><=\<close> on numbers: NaN is comparable with nothing.\<close>

fun js_le :: "jsnum \<Rightarrow> jsnum \<Rightarrow> bool" where
  "js_le NaN _ = False"
| "js_le _ NaN = False"
| "js_le NInf _ = True"
| "js_le _ PInf = True"
| "js_le (Fin a) (Fin b) = (a \<le> b)"
| "js_le _ _ = False"

text \<open>An error value as \<^verbatim>\<open>pidusageTree\<close> or the \<^verbatim>\<open>error\<close> event passes it: a string or an
  \<^verbatim>\<open>Error\<close> object (with its message). Only the empty string is falsy.\<close>

datatype jserr = ErrStr string | ErrObj string

fun truthy_err :: "jserr option \<Rightarrow> bool" where
  "truthy_err None = False"
| "truthy_err (Some (ErrStr s)) = (s \<noteq> [])"
| "truthy_err (Some (ErrObj m)) = True"

text \<open>Truthiness of an exit code (\<^verbatim>\<open>number | null\<close>): null and 0 are falsy.\<close>

fun truthy_code :: "int option \<Rightarrow> bool" where
  "truthy_code None = False"
| "truthy_code (Some c) = (c \<noteq> 0)"

text \<open>The decimal text a template literal gives an integer.\<close>

definition digit :: "nat \<Rightarrow> char" where
  "digit d = ''0123456789'' ! d"

function show_nat :: "nat \<Rightarrow> string" where
  "show_nat n = (if n < 10 then [digit n] else show_nat (n div 10) @ [digit (n mod 10)])"
  by pat_completeness auto
termination
  by (relation "measure (\<lambda>n. n)") auto

declare show_nat.simps [simp del]

definition show_int :: "int \<Rightarrow> string" where
  "show_int i = (if i < 0 then CHR ''-'' # show_nat (nat (- i)) else show_nat (nat i))"

subsection \<open>Data model\<close>

type_synonym addr = nat
type_synonym eref = nat

text \<open>The handle \<^verbatim>\<open>spawn\<close> returns, as far as the module reads it: \<^verbatim>\<open>pid\<close> (undefined when
  the launch failed), \<^verbatim>\<open>exitCode\<close> and \<^verbatim>\<open>signalCode\<close> (null until the runtime sets them).\<close>

record child_handle =
  pid :: "nat option"
  exitCode :: "int option"
  signalCode :: "string option"

text \<open>The object built in \<^verbatim>\<open>createProcess\<close> (lines 34-42).\<close>

record process =
  script :: string
  engine :: string
  childProcess :: child_handle
  startTime :: real
  cpuVals :: "jsnum list"
  memVals :: "jsnum list"
  isTimedOut :: bool

text \<open>A store cell: the process object together with the variables that the listeners
  registered in \<^verbatim>\<open>createProcess\<close> close over (\<^verbatim>\<open>engine\<close>, \<^verbatim>\<open>script\<close>, \<^verbatim>\<open>stdout\<close>,
  \<^verbatim>\<open>stderr\<close>).\<close>

record cell =
  obj :: process
  cl_engine :: eref
  cl_script :: string
  cl_stdout :: string
  cl_stderr :: string

record stats_block =
  cpus :: "jsnum list"
  mems :: "jsnum list"
  maxCPU :: jsnum
  minCPU :: jsnum
  maxMem :: jsnum
  minMem :: jsnum

record test_result =
  r_script :: string
  r_stdout :: string
  r_stderr :: string
  status :: string
  extime :: real
  stats :: stats_block

record engineInfo =
  name :: string
  path :: string
  testsQueue :: "string list"
  testsPassed :: "test_result list"
  testsFailed :: "test_result list"

text \<open>The \<^verbatim>\<open>processEndResult\<close> objects of the two listeners; an absent property is \<open>None\<close>.\<close>

record processEndResult =
  code :: "int option"
  signal :: "string option"
  error :: "jserr option"

record ProcessStats =
  cpu :: jsnum
  memory :: jsnum

datatype effect =
    Spawn string "string list"
  | Kill addr string
  | Query "nat option" addr
  | ConsoleError jserr
  | ConsoleLog string jsnum jsnum
  | PrintOSL string jsnum jsnum
  | ConsoleWarn string string
  | Callback eref

text \<open>
  \<open>Kill a reason\<close> is \<^verbatim>\<open>killProcess(p.childProcess, reason)\<close> for the process object at
  \<open>a\<close>; \<open>Query pid a\<close> is \<^verbatim>\<open>pidusageTree(pid, ...)\<close> issued with a callback that closes over
  the process object at \<open>a\<close>; \<open>PrintOSL s c m\<close> is \<^verbatim>\<open>printOSL\<close> of the line made of the
  script name, the cpu and the memory value; \<open>Callback e\<close> is \<^verbatim>\<open>callback(engine)\<close>.
\<close>

record state =
  heap :: "addr \<Rightarrow> cell"
  nextAddr :: nat
  PROCESSES :: "addr list"
  engines :: "eref \<Rightarrow> engineInfo"
  now :: real
  trace :: "effect list"

text \<open>
  What the module imports and does not define: the helpers of \<^verbatim>\<open>./utils\<close>, \<^verbatim>\<open>path.basename\<close>,
  \<^verbatim>\<open>spawn\<close> and the command line. They are parameters of the model. \<open>spawn p args n\<close> is the
  handle returned by the \<open>n\<close>-th launch.
\<close>

record env =
  checkIfProcessExists :: "child_handle \<Rightarrow> bool"
  checkIfProcessFinishedCorrectly :: "child_handle \<Rightarrow> bool"
  processPidusageStats :: "ProcessStats list \<Rightarrow> jsnum \<times> jsnum"
  parseTestOutput :: "string \<Rightarrow> string \<Rightarrow> string \<Rightarrow> string"
  basename :: "string \<Rightarrow> string"
  spawn :: "string \<Rightarrow> string list \<Rightarrow> nat \<Rightarrow> child_handle"
  ARGS :: "string list"

datatype js_exception = TypeError

definition emit :: "effect \<Rightarrow> state \<Rightarrow> state" where
  "emit x st = st\<lparr>trace := trace st @ [x]\<rparr>"

subsection \<open>\<^verbatim>\<open>createProcess\<close>\<close>

text \<open>Lines 26-76. The new object gets the next free address, is pushed on the registry,
  and its listeners start with empty output buffers. Returns the object and the world.\<close>

definition createProcess :: "env \<Rightarrow> eref \<Rightarrow> string \<Rightarrow> state \<Rightarrow> addr \<times> state" where
  "createProcess ev e scr st =
     (let eng = engines st e;
          a = nextAddr st;
          child = spawn ev (path eng) [scr] a;
          p = \<lparr>script = basename ev scr, engine = name eng, childProcess = child,
               startTime = now st, cpuVals = [], memVals = [], isTimedOut = False\<rparr>;
          c = \<lparr>obj = p, cl_engine = e, cl_script = scr, cl_stdout = [], cl_stderr = []\<rparr>
      in (a, st\<lparr>heap := (heap st)(a := c), nextAddr := Suc a,
                PROCESSES := PROCESSES st @ [a],
                trace := trace st @ [Spawn (path eng) [scr]]\<rparr>))"

subsection \<open>\<^verbatim>\<open>handleExecFileResult\<close>\<close>

definition flatten :: "string \<Rightarrow> string" where
  "flatten s = map (\<lambda>c. if c = CHR 0x0A then CHR '' '' else c) s"

definition mk_stats :: "process \<Rightarrow> stats_block" where
  "mk_stats p = \<lparr>cpus = cpuVals p, mems = memVals p,
                 maxCPU = Math_max (cpuVals p), minCPU = Math_min (cpuVals p),
                 maxMem = Math_max (memVals p), minMem = Math_min (memVals p)\<rparr>"

text \<open>The template of lines 136-138.\<close>

definition codeOrSignal :: "child_handle \<Rightarrow> string" where
  "codeOrSignal ch =
     (if truthy_code (exitCode ch) then show_int (the (exitCode ch))
      else (case signalCode ch of None \<Rightarrow> ''null'' | Some s \<Rightarrow> s))"

definition failStatus :: "process \<Rightarrow> string" where
  "failStatus p =
     (if isTimedOut p then ''timeout'' else ''error '' @ codeOrSignal (childProcess p))"

definition passRecord :: "env \<Rightarrow> engineInfo \<Rightarrow> string \<Rightarrow> string \<Rightarrow> string \<Rightarrow> real \<Rightarrow> process \<Rightarrow> test_result" where
  "passRecord ev eng scr out errs t p =
     \<lparr>r_script = scr, r_stdout = parseTestOutput ev (name eng) scr out, r_stderr = errs,
      status = ''success'', extime = t - startTime p, stats = mk_stats p\<rparr>"

definition failRecord :: "string \<Rightarrow> string \<Rightarrow> string \<Rightarrow> real \<Rightarrow> process \<Rightarrow> test_result" where
  "failRecord scr out errs t p =
     \<lparr>r_script = scr, r_stdout = flatten out, r_stderr = errs,
      status = failStatus p, extime = t - startTime p, stats = mk_stats p\<rparr>"

text \<open>Lines 116-148: the record is pushed on one of the engine's two lists.\<close>

definition pushResult :: "env \<Rightarrow> eref \<Rightarrow> string \<Rightarrow> processEndResult option \<Rightarrow> string \<Rightarrow> string
    \<Rightarrow> process \<Rightarrow> state \<Rightarrow> state" where
  "pushResult ev e scr err out errs p st =
     (let eng = engines st e in
      if err = None \<and> checkIfProcessFinishedCorrectly ev (childProcess p)
      then st\<lparr>engines := (engines st)
                 (e := eng\<lparr>testsPassed := testsPassed eng @ [passRecord ev eng scr out errs (now st) p]\<rparr>)\<rparr>
      else st\<lparr>engines := (engines st)
                 (e := eng\<lparr>testsFailed := testsFailed eng @ [failRecord scr out errs (now st) p]\<rparr>)\<rparr>)"

text \<open>Lines 149-153: the callback, or the next script taken with \<^verbatim>\<open>testsQueue.pop()\<close>.\<close>

definition advanceQueue :: "env \<Rightarrow> eref \<Rightarrow> state \<Rightarrow> state" where
  "advanceQueue ev e st =
     (let eng = engines st e in
      if length (testsQueue eng) = 0 then emit (Callback e) st
      else snd (createProcess ev e (last (testsQueue eng))
                  (st\<lparr>engines := (engines st)(e := eng\<lparr>testsQueue := butlast (testsQueue eng)\<rparr>)\<rparr>)))"

text \<open>
  Lines 113-154. \<^verbatim>\<open>PROCESSES.pop()\<close> on an empty array returns \<^verbatim>\<open>undefined\<close>, and reading
  \<^verbatim>\<open>process.cpuVals\<close> then throws a TypeError before anything else happens.
\<close>

definition handleExecFileResult :: "env \<Rightarrow> eref \<Rightarrow> string \<Rightarrow> processEndResult option \<Rightarrow> string
    \<Rightarrow> string \<Rightarrow> state \<Rightarrow> js_exception + state" where
  "handleExecFileResult ev e scr err out errs st =
     (if PROCESSES st = [] then Inl TypeError
      else
        let p = obj (heap st (last (PROCESSES st)));
            st1 = st\<lparr>PROCESSES := butlast (PROCESSES st)\<rparr>
        in Inr (advanceQueue ev e (pushResult ev e scr err out errs p st1)))"

subsection \<open>The listeners registered by \<^verbatim>\<open>createProcess\<close>\<close>

text \<open>Lines 54-58 and 67-70: the value handed to the handler as \<^verbatim>\<open>err\<close>.\<close>

definition closeEndResult :: "int option \<Rightarrow> string option \<Rightarrow> processEndResult option" where
  "closeEndResult c sg =
     (if c \<noteq> Some 0
      then Some \<lparr>code = (if truthy_code c then c else None), signal = sg, error = None\<rparr>
      else None)"

definition errorEndResult :: "jserr \<Rightarrow> processEndResult option" where
  "errorEndResult x = Some \<lparr>code = None, signal = None, error = Some x\<rparr>"

definition onStdout :: "addr \<Rightarrow> string \<Rightarrow> state \<Rightarrow> state" where
  "onStdout a d st = st\<lparr>heap := (heap st)(a := (heap st a)\<lparr>cl_stdout := cl_stdout (heap st a) @ d\<rparr>)\<rparr>"

definition onStderr :: "addr \<Rightarrow> string \<Rightarrow> state \<Rightarrow> state" where
  "onStderr a d st = st\<lparr>heap := (heap st)(a := (heap st a)\<lparr>cl_stderr := cl_stderr (heap st a) @ d\<rparr>)\<rparr>"

definition onClose :: "env \<Rightarrow> addr \<Rightarrow> int option \<Rightarrow> string option \<Rightarrow> state \<Rightarrow> js_exception + state" where
  "onClose ev a c sg st =
     (let cl = heap st a in
      handleExecFileResult ev (cl_engine cl) (cl_script cl) (closeEndResult c sg)
        (cl_stdout cl) (cl_stderr cl) st)"

definition onError :: "env \<Rightarrow> addr \<Rightarrow> jserr option \<Rightarrow> state \<Rightarrow> js_exception + state" where
  "onError ev a x st =
     (let cl = heap st a in
      if truthy_err x
      then handleExecFileResult ev (cl_engine cl) (cl_script cl) (errorEndResult (the x))
             (cl_stdout cl) (cl_stderr cl) st
      else Inr st)"

subsection \<open>\<^verbatim>\<open>pidUsageCallback\<close> and the monitor\<close>

text \<open>\<^verbatim>\<open>PROCESSES.findIndex(cp => cp.childProcess.pid === p.childProcess.pid)\<close>: the first
  index whose pid is the same, -1 when there is none.\<close>

fun findIndex :: "('a \<Rightarrow> bool) \<Rightarrow> 'a list \<Rightarrow> int" where
  "findIndex P [] = - 1"
| "findIndex P (x # xs) =
     (if P x then 0 else (let i = findIndex P xs in if i < 0 then - 1 else i + 1))"

text \<open>\<^verbatim>\<open>xs.splice(idx, 1)\<close>: a negative start counts from the end (and stops at 0); one
  element is removed when the start is inside the array.\<close>

definition splice1 :: "int \<Rightarrow> 'a list \<Rightarrow> 'a list" where
  "splice1 idx xs =
     (let n = int (length xs);
          start = (if idx < 0 then max (n + idx) 0 else min idx n)
      in take (nat start) xs @ drop (Suc (nat start)) xs)"

definition debugMode :: "env \<Rightarrow> bool" where
  "debugMode ev = (case ARGS ev of [] \<Rightarrow> False | a # _ \<Rightarrow> a = ''debug'')"

text \<open>Lines 84-103, for the process object at address \<open>a\<close>.\<close>

definition pidUsageCallback :: "env \<Rightarrow> jserr option \<Rightarrow> ProcessStats list \<Rightarrow> addr \<Rightarrow> state \<Rightarrow> state" where
  "pidUsageCallback ev err sts a st =
     (let cl = heap st a; p = obj cl in
      if \<not> checkIfProcessExists ev (childProcess p) then st
      else if truthy_err err then
        let st1 = emit (Kill a ''error'') (emit (ConsoleError (the err)) st);
            idx = findIndex (\<lambda>b. pid (childProcess (obj (heap st1 b))) = pid (childProcess p))
                    (PROCESSES st1)
        in st1\<lparr>PROCESSES := splice1 idx (PROCESSES st1)\<rparr>
      else
        let (c, m) = processPidusageStats ev sts;
            p' = p\<lparr>cpuVals := cpuVals p @ [c], memVals := memVals p @ [m]\<rparr>;
            st1 = st\<lparr>heap := (heap st)(a := cl\<lparr>obj := p'\<rparr>)\<rparr>
        in if debugMode ev then emit (ConsoleLog (script p) c m) st1
           else emit (PrintOSL (script p) c m) st1)"

text \<open>Lines 168-172: the rejection handler of the query's promise.\<close>

definition usageCatch :: "addr \<Rightarrow> state \<Rightarrow> state" where
  "usageCatch a st =
     (let cp = obj (heap st a) in
      if length (cpuVals cp) + length (memVals cp) = 0
      then emit (ConsoleWarn ''#WARN: '' (engine cp @ '':'' @ script cp @
             '' test ended too quickly. CPU and Memory data will be not available.'')) st
      else st)"

text \<open>Lines 163-178: the body of the \<^verbatim>\<open>forEach\<close> for one registered process. The clock
  is a field of the world that only the runtime moves, so every reading of
  \<^verbatim>\<open>performance.now()\<close> inside one listener or one tick returns the same time.\<close>

definition monitorProcess :: "env \<Rightarrow> real \<Rightarrow> addr \<Rightarrow> state \<Rightarrow> state" where
  "monitorProcess ev TIMEOUT a st =
     (let cl = heap st a; cp = obj cl in
      if checkIfProcessExists ev (childProcess cp) then
        if now st - startTime cp < TIMEOUT
        then emit (Query (pid (childProcess cp)) a) st
        else (emit (Kill a (script cp @ '' timeout'')) st)
               \<lparr>heap := (heap st)(a := cl\<lparr>obj := cp\<lparr>isTimedOut := True\<rparr>\<rparr>)\<rparr>
      else st)"

text \<open>One firing of the interval timer of \<^verbatim>\<open>startProcessesMonitoring\<close>. Nothing in the
  body changes the array synchronously, so the \<^verbatim>\<open>forEach\<close> is a left fold.\<close>

definition monitorTick :: "env \<Rightarrow> real \<Rightarrow> state \<Rightarrow> state" where
  "monitorTick ev TIMEOUT st = foldl (\<lambda>s a. monitorProcess ev TIMEOUT a s) st (PROCESSES st)"

subsection \<open>The events the runtime delivers\<close>

text \<open>
  The module is driven by the runtime: a call of the exported \<^verbatim>\<open>createProcess\<close>, data on
  a child's output streams, its \<^verbatim>\<open>close\<close> and \<^verbatim>\<open>error\<close> events, a timer tick, the
  answer or the rejection of a usage query, the runtime setting \<^verbatim>\<open>exitCode\<close> and
  \<^verbatim>\<open>signalCode\<close> on a handle, and the clock moving on. An event for an object that was
  never created has no listener and does nothing. An exception thrown in a listener is
  uncaught and ends the run.
\<close>

datatype event =
    EvStart eref string
  | EvStdout addr string
  | EvStderr addr string
  | EvClose addr "int option" "string option"
  | EvError addr "jserr option"
  | EvTick
  | EvUsage addr "jserr option" "ProcessStats list"
  | EvCatch addr
  | EvExit addr "int option" "string option"
  | EvClock real

definition setExit :: "addr \<Rightarrow> int option \<Rightarrow> string option \<Rightarrow> state \<Rightarrow> state" where
  "setExit a c sg st =
     (let cl = heap st a; p = obj cl in
      st\<lparr>heap := (heap st)
           (a := cl\<lparr>obj := p\<lparr>childProcess := (childProcess p)\<lparr>exitCode := c, signalCode := sg\<rparr>\<rparr>\<rparr>)\<rparr>)"

fun target :: "event \<Rightarrow> addr option" where
  "target (EvStdout a _) = Some a"
| "target (EvStderr a _) = Some a"
| "target (EvClose a _ _) = Some a"
| "target (EvError a _) = Some a"
| "target (EvUsage a _ _) = Some a"
| "target (EvCatch a) = Some a"
| "target (EvExit a _ _) = Some a"
| "target _ = None"

fun deliver :: "env \<Rightarrow> real \<Rightarrow> event \<Rightarrow> state \<Rightarrow> js_exception + state" where
  "deliver ev T (EvStart e scr) st = Inr (snd (createProcess ev e scr st))"
| "deliver ev T (EvStdout a d) st = Inr (onStdout a d st)"
| "deliver ev T (EvStderr a d) st = Inr (onStderr a d st)"
| "deliver ev T (EvClose a c sg) st = onClose ev a c sg st"
| "deliver ev T (EvError a x) st = onError ev a x st"
| "deliver ev T EvTick st = Inr (monitorTick ev T st)"
| "deliver ev T (EvUsage a err sts) st = Inr (pidUsageCallback ev err sts a st)"
| "deliver ev T (EvCatch a) st = Inr (usageCatch a st)"
| "deliver ev T (EvExit a c sg) st = Inr (setExit a c sg st)"
| "deliver ev T (EvClock t) st = Inr (st\<lparr>now := max (now st) t\<rparr>)"

definition fire :: "env \<Rightarrow> real \<Rightarrow> event \<Rightarrow> state \<Rightarrow> js_exception + state" where
  "fire ev T x st =
     (case target x of
        Some a \<Rightarrow> if a < nextAddr st then deliver ev T x st else Inr st
      | None \<Rightarrow> deliver ev T x st)"

fun run :: "env \<Rightarrow> real \<Rightarrow> event list \<Rightarrow> state \<Rightarrow> js_exception + state" where
  "run ev T [] st = Inr st"
| "run ev T (x # xs) st =
     (case fire ev T x st of Inl ex \<Rightarrow> Inl ex | Inr st' \<Rightarrow> run ev T xs st')"

definition blank :: cell where
  "blank = \<lparr>obj = \<lparr>script = [], engine = [], childProcess = \<lparr>pid = None, exitCode = None, signalCode = None\<rparr>,
                   startTime = 0, cpuVals = [], memVals = [], isTimedOut = False\<rparr>,
            cl_engine = 0, cl_script = [], cl_stdout = [], cl_stderr = []\<rparr>"

text \<open>The world when the module is loaded: no process object, an empty registry.\<close>

definition initial :: "(eref \<Rightarrow> engineInfo) \<Rightarrow> state" where
  "initial engs = \<lparr>heap = (\<lambda>_. blank), nextAddr = 0, PROCESSES = [], engines = engs, now = 0, trace = []\<rparr>"

subsection \<open>Vocabulary of the statements\<close>

text \<open>The object \<^verbatim>\<open>PROCESSES.pop()\<close> returns on a non-empty registry.\<close>

definition popped :: "state \<Rightarrow> process" where
  "popped st = obj (heap st (last (PROCESSES st)))"

text \<open>What was appended to the trace between two worlds.\<close>

definition emitted :: "state \<Rightarrow> state \<Rightarrow> effect list" where
  "emitted st st' = drop (length (trace st)) (trace st')"


text \<open>Between two worlds, engine \<open>e\<close> got the one record \<open>r\<close> on exactly one of its two
  lists, and no other engine got anything.\<close>

definition appendedOne :: "state \<Rightarrow> state \<Rightarrow> eref \<Rightarrow> test_result \<Rightarrow> bool" where
  "appendedOne st st' e r \<longleftrightarrow>
     ((testsPassed (engines st' e) = testsPassed (engines st e) @ [r] \<and>
       testsFailed (engines st' e) = testsFailed (engines st e)) \<or>
      (testsFailed (engines st' e) = testsFailed (engines st e) @ [r] \<and>
       testsPassed (engines st' e) = testsPassed (engines st e))) \<and>
     (\<forall>e'. e' \<noteq> e \<longrightarrow> testsPassed (engines st' e') = testsPassed (engines st e') \<and>
                        testsFailed (engines st' e') = testsFailed (engines st e'))"

text \<open>What the monitor does for one process in a tick, and whether it flags it.\<close>

definition tickEffects :: "env \<Rightarrow> real \<Rightarrow> state \<Rightarrow> addr \<Rightarrow> effect list" where
  "tickEffects ev T st a = emitted st (monitorProcess ev T a st)"

definition flagged :: "env \<Rightarrow> real \<Rightarrow> state \<Rightarrow> addr \<Rightarrow> bool" where
  "flagged ev T st a \<longleftrightarrow>
     checkIfProcessExists ev (childProcess (obj (heap st a))) \<and>
     \<not> now st - startTime (obj (heap st a)) < T"

text \<open>\<open>m\<close> is a greatest (least) element of \<open>xs\<close> in the order of the numbers.\<close>

definition isMax :: "jsnum \<Rightarrow> jsnum list \<Rightarrow> bool" where
  "isMax m xs \<longleftrightarrow> m \<in> set xs \<and> (\<forall>x\<in>set xs. js_le x m)"

definition isMin :: "jsnum \<Rightarrow> jsnum list \<Rightarrow> bool" where
  "isMin m xs \<longleftrightarrow> m \<in> set xs \<and> (\<forall>x\<in>set xs. js_le m x)"

text \<open>Every process object has as many cpu samples as memory samples.\<close>

definition paired :: "state \<Rightarrow> bool" where
  "paired st \<longleftrightarrow> (\<forall>a. length (cpuVals (obj (heap st a))) = length (memVals (obj (heap st a))))"

subsection \<open>Concrete collaborators and worlds\<close>

fun js_add :: "jsnum \<Rightarrow> jsnum \<Rightarrow> jsnum" where
  "js_add (Fin a) (Fin b) = Fin (a + b)"
| "js_add NaN _ = NaN"
| "js_add _ NaN = NaN"
| "js_add PInf NInf = NaN"
| "js_add NInf PInf = NaN"
| "js_add PInf _ = PInf"
| "js_add _ PInf = PInf"
| "js_add NInf _ = NInf"
| "js_add _ NInf = NInf"

text \<open>One possible set of collaborators: a handle is alive until the runtime has set an
  exit or signal code, finished correctly when it exited with code 0, and the samples of a
  process tree are summed.\<close>

definition env0 :: env where
  "env0 = \<lparr>checkIfProcessExists = (\<lambda>c. exitCode c = None \<and> signalCode c = None),
           checkIfProcessFinishedCorrectly = (\<lambda>c. exitCode c = Some 0 \<and> signalCode c = None),
           processPidusageStats = (\<lambda>sts. (foldl js_add (Fin 0) (map cpu sts), foldl js_add (Fin 0) (map memory sts))),
           parseTestOutput = (\<lambda>n scr out. out),
           basename = (\<lambda>s. rev (takeWhile (\<lambda>c. c \<noteq> CHR ''/'') (rev s))),
           spawn = (\<lambda>p args n. \<lparr>pid = Some (1000 + n), exitCode = None, signalCode = None\<rparr>),
           ARGS = []\<rparr>"

definition engA :: engineInfo where
  "engA = \<lparr>name = ''A'', path = ''/bin/a'', testsQueue = [], testsPassed = [], testsFailed = []\<rparr>"

definition engB :: engineInfo where
  "engB = \<lparr>name = ''B'', path = ''/bin/b'', testsQueue = [], testsPassed = [], testsFailed = []\<rparr>"

definition engs0 :: "eref \<Rightarrow> engineInfo" where
  "engs0 = (\<lambda>_. engB)(0 := engA)"

definition mkCell :: "eref \<Rightarrow> string \<Rightarrow> string \<Rightarrow> child_handle \<Rightarrow> jsnum list \<Rightarrow> jsnum list \<Rightarrow> bool \<Rightarrow> cell" where
  "mkCell e nm scr ch cs ms tmo =
     \<lparr>obj = \<lparr>script = scr, engine = nm, childProcess = ch, startTime = 0,
             cpuVals = cs, memVals = ms, isTimedOut = tmo\<rparr>,
      cl_engine = e, cl_script = ''tests/'' @ scr, cl_stdout = ''a'' @ [CHR 0x0A] @ ''b'', cl_stderr = []\<rparr>"



text \<open>Engines A and B each have a live process; A's was registered first.\<close>

definition stTwo :: state where
  "stTwo = \<lparr>heap = (\<lambda>_. blank)
               (0 := mkCell 0 ''A'' ''t.js'' \<lparr>pid = Some 1000, exitCode = Some 0, signalCode = None\<rparr>
                       [Fin 3, Fin 7] [Fin 20, Fin 10] False,
                1 := mkCell 1 ''B'' ''u.js'' \<lparr>pid = Some 1001, exitCode = None, signalCode = None\<rparr>
                       [Fin 50] [Fin 90] False),
            nextAddr = 2, PROCESSES = [0, 1], engines = engs0, now = 5, trace = []\<rparr>"


text \<open>Three registered processes at time 5000: one whose child has exited, one started at
  0 and one started at 4000.\<close>

definition startedAt :: "real \<Rightarrow> cell \<Rightarrow> cell" where
  "startedAt t c = c\<lparr>obj := (obj c)\<lparr>startTime := t\<rparr>\<rparr>"

definition stMon :: state where
  "stMon = \<lparr>heap = (\<lambda>_. blank)
               (0 := mkCell 0 ''A'' ''t.js'' \<lparr>pid = Some 1000, exitCode = Some 0, signalCode = None\<rparr> [] [] False,
                1 := mkCell 1 ''B'' ''u.js'' \<lparr>pid = Some 1001, exitCode = None, signalCode = None\<rparr>
                       [Fin 50] [Fin 90] False,
                2 := startedAt 4000 (mkCell 2 ''C'' ''v.js'' \<lparr>pid = Some 1002, exitCode = None, signalCode = None\<rparr>
                       [] [] False)),
            nextAddr = 3, PROCESSES = [0, 1, 2], engines = engs0, now = 5000, trace = []\<rparr>"

subsection \<open>Concrete runs from the initial world\<close>

definition samp :: "real \<Rightarrow> real \<Rightarrow> ProcessStats list" where
  "samp c m = [\<lparr>cpu = Fin c, memory = Fin m\<rparr>]"

text \<open>Engines A and B each start a script, A first; both are sampled once; A's child
  exits with code 0 and closes while B's is still running.\<close>

definition evsTwo :: "event list" where
  "evsTwo = [EvStart 0 ''tests/t.js'', EvStart 1 ''tests/u.js'',
             EvUsage 0 None (samp 3 20), EvUsage 1 None (samp 50 90),
             EvExit 0 (Some 0) None, EvClose 0 (Some 0) None]"

text \<open>Engine A's only process fails its usage query while alive, and its child closes once
  the kill has arrived.\<close>

definition evsKilled :: "event list" where
  "evsKilled = [EvStart 0 ''tests/t.js'', EvUsage 0 (Some (ErrObj ''ESRCH'')) [],
                EvExit 0 None (Some ''SIGKILL''), EvClose 0 None (Some ''SIGKILL'')]"

text \<open>The same for engine B's process while engine A's is running and sampled.\<close>

definition evsKilledTwo :: "event list" where
  "evsKilledTwo = [EvStart 0 ''tests/t.js'', EvStart 1 ''tests/u.js'',
                   EvUsage 0 None (samp 3 20), EvUsage 1 (Some (ErrObj ''ESRCH'')) [],
                   EvExit 1 None (Some ''SIGKILL''), EvClose 1 None (Some ''SIGKILL'')]"



text \<open>Engines A and B each start a script, A first; each is sampled twice; A's child exits
  with code 0 and closes while B's is still running.\<close>

definition evsStats :: "event list" where
  "evsStats = [EvStart 0 ''tests/t.js'', EvStart 1 ''tests/u.js'',
               EvUsage 0 None (samp 3 20), EvUsage 1 None (samp 50 90),
               EvUsage 0 None (samp 7 10), EvUsage 1 None (samp 40 95),
               EvExit 0 (Some 0) None, EvClose 0 (Some 0) None]"

text \<open>Engines A and B each start a script, A first; A's child exits with code 3 and closes
  while B's is still running.\<close>

definition evsExit3 :: "event list" where
  "evsExit3 = [EvStart 0 ''tests/t.js'', EvStart 1 ''tests/u.js'',
               EvExit 0 (Some 3) None, EvClose 0 (Some 3) None]"

text \<open>The same exit with no other process registered.\<close>

definition evsAlone3 :: "event list" where
  "evsAlone3 = [EvStart 0 ''tests/t.js'', EvExit 0 (Some 3) None, EvClose 0 (Some 3) None]"




subsection \<open>Helper facts about the handler\<close>

lemma handler_result:
  "PROCESSES st \<noteq> [] \<Longrightarrow>
   handleExecFileResult ev e scr err out errs st =
     Inr (advanceQueue ev e (pushResult ev e scr err out errs (popped st)
            (st\<lparr>PROCESSES := butlast (PROCESSES st)\<rparr>)))"
  by (simp add: handleExecFileResult_def popped_def)

lemma handler_empty:
  "PROCESSES st = [] \<Longrightarrow> handleExecFileResult ev e scr err out errs st = Inl TypeError"
  by (simp add: handleExecFileResult_def)

lemma advanceQueue_results:
  "testsPassed (engines (advanceQueue ev e st) e') = testsPassed (engines st e')"
  "testsFailed (engines (advanceQueue ev e st) e') = testsFailed (engines st e')"
  by (simp_all add: advanceQueue_def createProcess_def emit_def Let_def)

lemma pushResult_pass:
  "err = None \<and> checkIfProcessFinishedCorrectly ev (childProcess p) \<Longrightarrow>
   testsPassed (engines (pushResult ev e scr err out errs p st) e) =
     testsPassed (engines st e) @ [passRecord ev (engines st e) scr out errs (now st) p] \<and>
   testsFailed (engines (pushResult ev e scr err out errs p st) e) = testsFailed (engines st e)"
  by (simp add: pushResult_def Let_def)

lemma pushResult_fail:
  "\<not> (err = None \<and> checkIfProcessFinishedCorrectly ev (childProcess p)) \<Longrightarrow>
   testsFailed (engines (pushResult ev e scr err out errs p st) e) =
     testsFailed (engines st e) @ [failRecord scr out errs (now st) p] \<and>
   testsPassed (engines (pushResult ev e scr err out errs p st) e) = testsPassed (engines st e)"
  by (simp add: pushResult_def Let_def)

lemma pushResult_other:
  "e' \<noteq> e \<Longrightarrow> engines (pushResult ev e scr err out errs p st) e' = engines st e'"
  by (simp add: pushResult_def Let_def)

lemma handler_record:
  assumes "PROCESSES st \<noteq> []"
  shows "\<exists>st' r. handleExecFileResult ev e scr err out errs st = Inr st' \<and>
           appendedOne st st' e r \<and> r_script r = scr \<and> stats r = mk_stats (popped st)"
proof -
  let ?st1 = "st\<lparr>PROCESSES := butlast (PROCESSES st)\<rparr>"
  let ?st2 = "pushResult ev e scr err out errs (popped st) ?st1"
  have run: "handleExecFileResult ev e scr err out errs st = Inr (advanceQueue ev e ?st2)"
    using assms by (rule handler_result)
  have other: "\<forall>e'. e' \<noteq> e \<longrightarrow> testsPassed (engines (advanceQueue ev e ?st2) e') = testsPassed (engines st e') \<and>
                        testsFailed (engines (advanceQueue ev e ?st2) e') = testsFailed (engines st e')"
    by (simp add: advanceQueue_results pushResult_other)
  show ?thesis
  proof (cases "err = None \<and> checkIfProcessFinishedCorrectly ev (childProcess (popped st))")
    case True
    let ?r = "passRecord ev (engines st e) scr out errs (now st) (popped st)"
    have "testsPassed (engines (advanceQueue ev e ?st2) e) = testsPassed (engines st e) @ [?r] \<and>
          testsFailed (engines (advanceQueue ev e ?st2) e) = testsFailed (engines st e)"
      using pushResult_pass [OF True, of e scr out errs ?st1] by (simp add: advanceQueue_results)
    with other have "appendedOne st (advanceQueue ev e ?st2) e ?r"
      unfolding appendedOne_def by blast
    moreover have "r_script ?r = scr \<and> stats ?r = mk_stats (popped st)"
      by (simp add: passRecord_def)
    ultimately show ?thesis using run by blast
  next
    case False
    let ?r = "failRecord scr out errs (now st) (popped st)"
    have "testsFailed (engines (advanceQueue ev e ?st2) e) = testsFailed (engines st e) @ [?r] \<and>
          testsPassed (engines (advanceQueue ev e ?st2) e) = testsPassed (engines st e)"
      using pushResult_fail [OF False, of e scr out errs ?st1] by (simp add: advanceQueue_results)
    with other have "appendedOne st (advanceQueue ev e ?st2) e ?r"
      unfolding appendedOne_def by blast
    moreover have "r_script ?r = scr \<and> stats ?r = mk_stats (popped st)"
      by (simp add: failRecord_def)
    ultimately show ?thesis using run by blast
  qed
qed


lemmas core_defs = fire_def onClose_def onError_def handleExecFileResult_def pushResult_def
  advanceQueue_def createProcess_def emit_def passRecord_def failRecord_def failStatus_def
  codeOrSignal_def mk_stats_def closeEndResult_def errorEndResult_def Let_def

lemmas initial_defs = initial_def engs0_def engA_def engB_def blank_def env0_def







subsection \<open>Helper facts about the monitor\<close>

lemma tickEffects_cases:
  "tickEffects ev T st a =
     (if checkIfProcessExists ev (childProcess (obj (heap st a)))
      then (if now st - startTime (obj (heap st a)) < T
            then [Query (pid (childProcess (obj (heap st a)))) a]
            else [Kill a (script (obj (heap st a)) @ '' timeout'')])
      else [])"
  by (simp add: tickEffects_def emitted_def monitorProcess_def emit_def Let_def)

lemma monitorProcess_trace:
  "trace (monitorProcess ev T a st) = trace st @ tickEffects ev T st a"
  by (simp add: tickEffects_def emitted_def monitorProcess_def emit_def Let_def)

lemma monitorProcess_keeps:
  "now (monitorProcess ev T a st) = now st"
  "PROCESSES (monitorProcess ev T a st) = PROCESSES st"
  "engines (monitorProcess ev T a st) = engines st"
  "childProcess (obj (heap (monitorProcess ev T a st) b)) = childProcess (obj (heap st b))"
  "startTime (obj (heap (monitorProcess ev T a st) b)) = startTime (obj (heap st b))"
  "script (obj (heap (monitorProcess ev T a st) b)) = script (obj (heap st b))"
  "cpuVals (obj (heap (monitorProcess ev T a st) b)) = cpuVals (obj (heap st b))"
  "memVals (obj (heap (monitorProcess ev T a st) b)) = memVals (obj (heap st b))"
  by (simp_all add: monitorProcess_def emit_def Let_def)

lemma monitorProcess_flag:
  "isTimedOut (obj (heap (monitorProcess ev T a st) b)) =
     (isTimedOut (obj (heap st b)) \<or> (b = a \<and> flagged ev T st a))"
  by (simp add: monitorProcess_def emit_def Let_def flagged_def)

lemma tickEffects_step: "tickEffects ev T (monitorProcess ev T a st) b = tickEffects ev T st b"
  by (simp add: tickEffects_cases monitorProcess_keeps)

lemma flagged_step: "flagged ev T (monitorProcess ev T a st) b = flagged ev T st b"
  by (simp add: flagged_def monitorProcess_keeps)

lemma fold_monitor_trace:
  "trace (foldl (\<lambda>s a. monitorProcess ev T a s) st as) =
     trace st @ concat (map (tickEffects ev T st) as)"
proof (induction as arbitrary: st)
  case Nil
  then show ?case by simp
next
  case (Cons a as)
  have "tickEffects ev T (monitorProcess ev T a st) = tickEffects ev T st"
    by (rule ext) (rule tickEffects_step)
  then show ?case
    using Cons.IH [of "monitorProcess ev T a st"] by (simp add: monitorProcess_trace)
qed

lemma fold_monitor_flag:
  "isTimedOut (obj (heap (foldl (\<lambda>s a. monitorProcess ev T a s) st as) b)) =
     (isTimedOut (obj (heap st b)) \<or> (b \<in> set as \<and> flagged ev T st b))"
proof (induction as arbitrary: st)
  case Nil
  then show ?case by simp
next
  case (Cons a as)
  show ?case
    using Cons.IH [of "monitorProcess ev T a st"]
    by (auto simp: monitorProcess_flag flagged_step)
qed

lemma tick_emitted:
  "emitted st (monitorTick ev T st) = concat (map (tickEffects ev T st) (PROCESSES st))"
  by (simp add: monitorTick_def emitted_def fold_monitor_trace)

subsection \<open>Helper facts about the usage callback\<close>

lemma findIndex_found: "(0 \<le> findIndex P xs) = (\<exists>x\<in>set xs. P x)"
  by (induction xs) (auto simp: Let_def)

lemma findIndex_nonneg: "\<exists>x\<in>set xs. P x \<Longrightarrow> 0 \<le> findIndex P xs"
  by (simp add: findIndex_found)

lemma findIndex_none: "\<forall>x\<in>set xs. \<not> P x \<Longrightarrow> findIndex P xs = - 1"
  by (induction xs) (auto simp: Let_def)

lemma splice1_zero: "splice1 0 (x # xs) = xs"
  by (simp add: splice1_def)

lemma splice1_shift: "0 \<le> i \<Longrightarrow> splice1 (i + 1) (x # xs) = x # splice1 i xs"
  by (simp add: splice1_def Let_def nat_add_distrib min_def)

lemma splice1_last: "splice1 (- 1) xs = butlast xs"
  by (cases xs rule: rev_cases) (simp_all add: splice1_def Let_def)

lemma splice1_findIndex:
  "a \<in> set xs \<Longrightarrow> \<forall>b\<in>set xs. b \<noteq> a \<longrightarrow> f b \<noteq> f a \<Longrightarrow>
   splice1 (findIndex (\<lambda>b. f b = f a) xs) xs = remove1 a xs"
proof (induction xs)
  case Nil
  then show ?case by simp
next
  case (Cons x xs)
  show ?case
  proof (cases "x = a")
    case True
    then show ?thesis by (simp add: splice1_zero)
  next
    case False
    with Cons.prems have in_xs: "a \<in> set xs"
      and d: "\<forall>b\<in>set xs. b \<noteq> a \<longrightarrow> f b \<noteq> f a" and fx: "f x \<noteq> f a"
      by auto
    have nn: "0 \<le> findIndex (\<lambda>b. f b = f a) xs"
      using in_xs by (intro findIndex_nonneg) auto
    show ?thesis
      using False fx nn Cons.IH [OF in_xs d] by (simp add: Let_def splice1_shift)
  qed
qed

lemma query_error_unregistered:
  assumes "checkIfProcessExists ev (childProcess (obj (heap st a)))" and "truthy_err err"
    and "\<forall>b\<in>set (PROCESSES st). pid (childProcess (obj (heap st b))) \<noteq> pid (childProcess (obj (heap st a)))"
  shows "PROCESSES (pidUsageCallback ev err sts a st) = butlast (PROCESSES st)"
proof -
  have "findIndex (\<lambda>b. pid (childProcess (obj (heap st b))) = pid (childProcess (obj (heap st a))))
          (PROCESSES st) = - 1"
    using assms(3) by (intro findIndex_none) auto
  then show ?thesis
    using assms(1,2) by (simp add: pidUsageCallback_def Let_def emit_def splice1_last)
qed

subsection \<open>Helper facts about the statistics\<close>

lemma js_le_trans: "js_le a b \<Longrightarrow> js_le b c \<Longrightarrow> js_le a c"
  by (cases a; cases b; cases c) auto

lemma js_le_NInf: "x \<noteq> NaN \<Longrightarrow> js_le x NInf \<Longrightarrow> x = NInf"
  by (cases x) auto

lemma js_le_PInf: "x \<noteq> NaN \<Longrightarrow> js_le PInf x \<Longrightarrow> x = PInf"
  by (cases x) auto

lemma js_max2_props:
  "a \<noteq> NaN \<Longrightarrow> b \<noteq> NaN \<Longrightarrow>
   js_max2 a b \<noteq> NaN \<and> (js_max2 a b = a \<or> js_max2 a b = b) \<and>
   js_le a (js_max2 a b) \<and> js_le b (js_max2 a b)"
  by (cases a; cases b) (auto simp: max_def)

lemma js_min2_props:
  "a \<noteq> NaN \<Longrightarrow> b \<noteq> NaN \<Longrightarrow>
   js_min2 a b \<noteq> NaN \<and> (js_min2 a b = a \<or> js_min2 a b = b) \<and>
   js_le (js_min2 a b) a \<and> js_le (js_min2 a b) b"
  by (cases a; cases b) (auto simp: min_def)

lemma js_le_refl: "a \<noteq> NaN \<Longrightarrow> js_le a a"
  by (cases a) auto

lemma foldl_js_max2:
  "acc \<noteq> NaN \<Longrightarrow> NaN \<notin> set xs \<Longrightarrow>
   foldl js_max2 acc xs \<noteq> NaN \<and> foldl js_max2 acc xs \<in> insert acc (set xs) \<and>
   js_le acc (foldl js_max2 acc xs) \<and> (\<forall>x\<in>set xs. js_le x (foldl js_max2 acc xs))"
proof (induction xs arbitrary: acc)
  case Nil
  then show ?case by (simp add: js_le_refl)
next
  case (Cons x xs)
  from Cons.prems have x: "x \<noteq> NaN" and xs: "NaN \<notin> set xs" by auto
  note p = js_max2_props [OF Cons.prems(1) x]
  from p have acc': "js_max2 acc x \<noteq> NaN" by simp
  note ih = Cons.IH [OF acc' xs]
  have "js_le acc (foldl js_max2 (js_max2 acc x) xs)"
    using p ih by (blast intro: js_le_trans)
  moreover have "js_le x (foldl js_max2 (js_max2 acc x) xs)"
    using p ih by (blast intro: js_le_trans)
  moreover have "foldl js_max2 (js_max2 acc x) xs \<in> insert acc (set (x # xs))"
    using p ih by auto
  ultimately show ?case using ih by simp
qed

lemma foldl_js_min2:
  "acc \<noteq> NaN \<Longrightarrow> NaN \<notin> set xs \<Longrightarrow>
   foldl js_min2 acc xs \<noteq> NaN \<and> foldl js_min2 acc xs \<in> insert acc (set xs) \<and>
   js_le (foldl js_min2 acc xs) acc \<and> (\<forall>x\<in>set xs. js_le (foldl js_min2 acc xs) x)"
proof (induction xs arbitrary: acc)
  case Nil
  then show ?case by (simp add: js_le_refl)
next
  case (Cons x xs)
  from Cons.prems have x: "x \<noteq> NaN" and xs: "NaN \<notin> set xs" by auto
  note p = js_min2_props [OF Cons.prems(1) x]
  from p have acc': "js_min2 acc x \<noteq> NaN" by simp
  note ih = Cons.IH [OF acc' xs]
  have "js_le (foldl js_min2 (js_min2 acc x) xs) acc"
    using p ih by (blast intro: js_le_trans)
  moreover have "js_le (foldl js_min2 (js_min2 acc x) xs) x"
    using p ih by (blast intro: js_le_trans)
  moreover have "foldl js_min2 (js_min2 acc x) xs \<in> insert acc (set (x # xs))"
    using p ih by auto
  ultimately show ?case using ih by simp
qed

lemma Math_max_isMax:
  assumes "xs \<noteq> []" and "NaN \<notin> set xs"
  shows "isMax (Math_max xs) xs"
proof -
  have f: "foldl js_max2 NInf xs \<in> insert NInf (set xs) \<and> (\<forall>x\<in>set xs. js_le x (foldl js_max2 NInf xs))"
    using foldl_js_max2 [of NInf xs] assms(2) by simp
  have "foldl js_max2 NInf xs \<in> set xs"
  proof (cases "foldl js_max2 NInf xs = NInf")
    case True
    obtain x where x: "x \<in> set xs" using assms(1) by (cases xs) auto
    with f True have "js_le x NInf" by simp
    moreover have "x \<noteq> NaN" using x assms(2) by auto
    ultimately have "x = NInf" by (simp add: js_le_NInf)
    with x True show ?thesis by simp
  next
    case False
    with f show ?thesis by simp
  qed
  with f show ?thesis by (simp add: isMax_def Math_max_def)
qed

lemma Math_min_isMin:
  assumes "xs \<noteq> []" and "NaN \<notin> set xs"
  shows "isMin (Math_min xs) xs"
proof -
  have f: "foldl js_min2 PInf xs \<in> insert PInf (set xs) \<and> (\<forall>x\<in>set xs. js_le (foldl js_min2 PInf xs) x)"
    using foldl_js_min2 [of PInf xs] assms(2) by simp
  have "foldl js_min2 PInf xs \<in> set xs"
  proof (cases "foldl js_min2 PInf xs = PInf")
    case True
    obtain x where x: "x \<in> set xs" using assms(1) by (cases xs) auto
    with f True have "js_le PInf x" by simp
    moreover have "x \<noteq> NaN" using x assms(2) by auto
    ultimately have "x = PInf" by (simp add: js_le_PInf)
    with x True show ?thesis by simp
  next
    case False
    with f show ?thesis by simp
  qed
  with f show ?thesis by (simp add: isMin_def Math_min_def)
qed

lemma paired_initial: "paired (initial engs)"
  by (simp add: paired_def initial_def blank_def)

lemma paired_createProcess: "paired st \<Longrightarrow> paired (snd (createProcess ev e scr st))"
  by (simp add: paired_def createProcess_def Let_def)

lemma paired_pushResult: "paired st \<Longrightarrow> paired (pushResult ev e scr err out errs p st)"
  by (simp add: paired_def pushResult_def Let_def)

lemma paired_advanceQueue: "paired st \<Longrightarrow> paired (advanceQueue ev e st)"
  by (simp add: paired_def advanceQueue_def createProcess_def emit_def Let_def)

lemma paired_handler:
  "paired st \<Longrightarrow> handleExecFileResult ev e scr err out errs st = Inr st' \<Longrightarrow> paired st'"
proof -
  assume p: "paired st" and h: "handleExecFileResult ev e scr err out errs st = Inr st'"
  from h have ne: "PROCESSES st \<noteq> []"
    by (auto simp: handleExecFileResult_def split: if_splits)
  have "paired (st\<lparr>PROCESSES := butlast (PROCESSES st)\<rparr>)"
    using p by (simp add: paired_def)
  then have "paired (advanceQueue ev e (pushResult ev e scr err out errs (popped st)
            (st\<lparr>PROCESSES := butlast (PROCESSES st)\<rparr>)))"
    by (intro paired_advanceQueue paired_pushResult)
  with h handler_result [OF ne, of ev e scr err out errs] show ?thesis by simp
qed

lemma paired_monitorTick: "paired st \<Longrightarrow> paired (monitorTick ev T st)"
proof -
  have "paired s \<Longrightarrow> paired (foldl (\<lambda>s a. monitorProcess ev T a s) s as)" for s as
    by (induction as arbitrary: s) (simp_all add: paired_def monitorProcess_keeps)
  then show "paired st \<Longrightarrow> paired (monitorTick ev T st)"
    by (simp add: monitorTick_def)
qed

lemma paired_pidUsageCallback: "paired st \<Longrightarrow> paired (pidUsageCallback ev err sts a st)"
  by (auto simp: paired_def pidUsageCallback_def emit_def Let_def split: prod.splits)

lemma paired_fire: "paired st \<Longrightarrow> fire ev T x st = Inr st' \<Longrightarrow> paired st'"
proof (cases x)
  case (EvStart e scr)
  assume "paired st" "fire ev T x st = Inr st'"
  with EvStart show ?thesis by (auto simp: fire_def intro: paired_createProcess)
next
  case (EvStdout a d)
  assume "paired st" "fire ev T x st = Inr st'"
  with EvStdout show ?thesis by (auto simp: fire_def onStdout_def paired_def split: if_splits)
next
  case (EvStderr a d)
  assume "paired st" "fire ev T x st = Inr st'"
  with EvStderr show ?thesis by (auto simp: fire_def onStderr_def paired_def split: if_splits)
next
  case (EvClose a c sg)
  assume "paired st" "fire ev T x st = Inr st'"
  with EvClose show ?thesis
    by (auto simp: fire_def onClose_def Let_def split: if_splits intro: paired_handler)
next
  case (EvError a e)
  assume "paired st" "fire ev T x st = Inr st'"
  with EvError show ?thesis
    by (auto simp: fire_def onError_def Let_def split: if_splits intro: paired_handler)
next
  case EvTick
  assume "paired st" "fire ev T x st = Inr st'"
  with EvTick show ?thesis by (auto simp: fire_def intro: paired_monitorTick)
next
  case (EvUsage a err sts)
  assume "paired st" "fire ev T x st = Inr st'"
  with EvUsage show ?thesis
    by (auto simp: fire_def split: if_splits intro: paired_pidUsageCallback)
next
  case (EvCatch a)
  assume "paired st" "fire ev T x st = Inr st'"
  with EvCatch show ?thesis
    by (auto simp: fire_def usageCatch_def emit_def Let_def paired_def split: if_splits)
next
  case (EvExit a c sg)
  assume "paired st" "fire ev T x st = Inr st'"
  with EvExit show ?thesis
    by (auto simp: fire_def setExit_def Let_def paired_def split: if_splits)
next
  case (EvClock t)
  assume "paired st" "fire ev T x st = Inr st'"
  with EvClock show ?thesis by (auto simp: fire_def paired_def)
qed

lemma paired_run: "paired st \<Longrightarrow> run ev T xs st = Inr st' \<Longrightarrow> paired st'"
proof (induction xs arbitrary: st)
  case Nil
  then show ?case by simp
next
  case (Cons x xs)
  then show ?case
    by (auto split: sum.splits dest: paired_fire)
qed

lemma mk_stats_props:
  assumes "length (cpuVals p) = length (memVals p)"
  shows "cpus (mk_stats p) = cpuVals p \<and> mems (mk_stats p) = memVals p \<and>
     length (cpus (mk_stats p)) = length (mems (mk_stats p)) \<and>
     (cpus (mk_stats p) \<noteq> [] \<and> NaN \<notin> set (cpus (mk_stats p)) \<longrightarrow>
        isMax (maxCPU (mk_stats p)) (cpus (mk_stats p)) \<and>
        isMin (minCPU (mk_stats p)) (cpus (mk_stats p))) \<and>
     (mems (mk_stats p) \<noteq> [] \<and> NaN \<notin> set (mems (mk_stats p)) \<longrightarrow>
        isMax (maxMem (mk_stats p)) (mems (mk_stats p)) \<and>
        isMin (minMem (mk_stats p)) (mems (mk_stats p))) \<and>
     (cpus (mk_stats p) = [] \<longrightarrow>
        maxCPU (mk_stats p) = NInf \<and> minCPU (mk_stats p) = PInf \<and>
        maxMem (mk_stats p) = NInf \<and> minMem (mk_stats p) = PInf)"
proof -
  have e: "cpuVals p = [] \<longrightarrow> memVals p = []"
    using assms by auto
  show ?thesis
    using assms e
    by (simp add: mk_stats_def Math_max_isMax Math_min_isMin) (simp add: Math_max_def Math_min_def)
qed

subsection \<open>What the handler records about the popped process\<close>

text \<open>
  The record is built from the object \<^verbatim>\<open>PROCESSES.pop()\<close> returns. The three facts below
  say what the handler does with that object; they say nothing about whose process it is.
  The decision between pass and fail is \<^verbatim>\<open>!err\<close> together with the verdict on the popped
  handle, and the end result is null exactly for a \<^verbatim>\<open>close\<close> event with code 0.
\<close>

lemma popped_pass_rule:
  assumes "PROCESSES st \<noteq> []"
  shows "\<exists>st' r. handleExecFileResult ev e scr err out errs st = Inr st' \<and>
           (if err = None \<and> checkIfProcessFinishedCorrectly ev (childProcess (popped st))
            then testsPassed (engines st' e) = testsPassed (engines st e) @ [r] \<and>
                 testsFailed (engines st' e) = testsFailed (engines st e) \<and>
                 status r = ''success'' \<and>
                 r_stdout r = parseTestOutput ev (name (engines st e)) scr out
            else testsFailed (engines st' e) = testsFailed (engines st e) @ [r] \<and>
                 testsPassed (engines st' e) = testsPassed (engines st e) \<and>
                 status r \<noteq> ''success'') \<and>
           (closeEndResult c sg = None \<longleftrightarrow> c = Some 0) \<and>
           errorEndResult x \<noteq> None"
proof -
  let ?st1 = "st\<lparr>PROCESSES := butlast (PROCESSES st)\<rparr>"
  let ?st' = "advanceQueue ev e (pushResult ev e scr err out errs (popped st) ?st1)"
  have run: "handleExecFileResult ev e scr err out errs st = Inr ?st'"
    using assms by (rule handler_result)
  have ends: "(closeEndResult c sg = None \<longleftrightarrow> c = Some 0) \<and> errorEndResult x \<noteq> None"
    by (simp add: closeEndResult_def errorEndResult_def)
  show ?thesis
  proof (cases "err = None \<and> checkIfProcessFinishedCorrectly ev (childProcess (popped st))")
    case True
    let ?r = "passRecord ev (engines st e) scr out errs (now st) (popped st)"
    have "testsPassed (engines ?st' e) = testsPassed (engines st e) @ [?r] \<and>
          testsFailed (engines ?st' e) = testsFailed (engines st e)"
      using pushResult_pass [OF True, of e scr out errs ?st1] by (simp add: advanceQueue_results)
    moreover have "status ?r = ''success'' \<and> r_stdout ?r = parseTestOutput ev (name (engines st e)) scr out"
      by (simp add: passRecord_def)
    ultimately show ?thesis using run ends True by auto
  next
    case False
    let ?r = "failRecord scr out errs (now st) (popped st)"
    have "testsFailed (engines ?st' e) = testsFailed (engines st e) @ [?r] \<and>
          testsPassed (engines ?st' e) = testsPassed (engines st e)"
      using pushResult_fail [OF False, of e scr out errs ?st1] by (simp add: advanceQueue_results)
    moreover have "status ?r \<noteq> ''success''"
      by (simp add: failRecord_def failStatus_def)
    ultimately show ?thesis using run ends False by auto
  qed
qed

text \<open>The status of a failure record whose popped process is not flagged: the popped
  handle's exit code in decimal when it is a number other than 0, otherwise its signal
  code, and \<^verbatim>\<open>null\<close> when that is null too.\<close>

lemma popped_status_rule:
  assumes "PROCESSES st \<noteq> []"
    and "\<not> (err = None \<and> checkIfProcessFinishedCorrectly ev (childProcess (popped st)))"
    and "\<not> isTimedOut (popped st)"
  shows "\<exists>st' r. handleExecFileResult ev e scr err out errs st = Inr st' \<and>
           testsFailed (engines st' e) = testsFailed (engines st e) @ [r] \<and>
           (\<forall>c. exitCode (childProcess (popped st)) = Some c \<and> c \<noteq> 0 \<longrightarrow>
                status r = ''error '' @ show_int c) \<and>
           (exitCode (childProcess (popped st)) = None \<or>
            exitCode (childProcess (popped st)) = Some 0 \<longrightarrow>
              (\<forall>sg. signalCode (childProcess (popped st)) = Some sg \<longrightarrow> status r = ''error '' @ sg) \<and>
              (signalCode (childProcess (popped st)) = None \<longrightarrow> status r = ''error null''))"
proof -
  let ?st1 = "st\<lparr>PROCESSES := butlast (PROCESSES st)\<rparr>"
  let ?st' = "advanceQueue ev e (pushResult ev e scr err out errs (popped st) ?st1)"
  let ?r = "failRecord scr out errs (now st) (popped st)"
  have a: "handleExecFileResult ev e scr err out errs st = Inr ?st'"
    using assms(1) by (rule handler_result)
  have b: "testsFailed (engines ?st' e) = testsFailed (engines st e) @ [?r]"
    using pushResult_fail [OF assms(2), of e scr out errs ?st1]
    by (simp add: advanceQueue_results)
  have c: "\<forall>c. exitCode (childProcess (popped st)) = Some c \<and> c \<noteq> 0 \<longrightarrow>
                status ?r = ''error '' @ show_int c"
    using assms(3) by (simp add: failRecord_def failStatus_def codeOrSignal_def)
  have d: "exitCode (childProcess (popped st)) = None \<or>
            exitCode (childProcess (popped st)) = Some 0 \<longrightarrow>
              (\<forall>sg. signalCode (childProcess (popped st)) = Some sg \<longrightarrow> status ?r = ''error '' @ sg) \<and>
              (signalCode (childProcess (popped st)) = None \<longrightarrow> status ?r = ''error null'')"
    using assms(3) by (auto simp: failRecord_def failStatus_def codeOrSignal_def)
  from a b c d show ?thesis
    by - (rule exI [of _ ?st'], rule exI [of _ ?r], blast)
qed

lemma show_int_examples:
  "show_int 3 = ''3''" "show_int 137 = ''137''" "show_int (- 2) = ''-2''" "show_int 0 = ''0''"
  by (simp_all add: show_int_def show_nat.simps digit_def)

text \<open>The statistics of the record are those of the popped process. In every world the
  module reaches from its initial one the two sample sequences have equal length; without
  NaN, the maxima and minima are greatest and least elements; without samples they are
  \<^verbatim>\<open>-Infinity\<close> and \<^verbatim>\<open>Infinity\<close>.\<close>

lemma popped_stats_rule:
  assumes "run ev T evs (initial engs) = Inr st" and "PROCESSES st \<noteq> []"
  shows "\<exists>st' r. handleExecFileResult ev e scr err out errs st = Inr st' \<and>
     appendedOne st st' e r \<and>
     cpus (stats r) = cpuVals (popped st) \<and> mems (stats r) = memVals (popped st) \<and>
     length (cpus (stats r)) = length (mems (stats r)) \<and>
     (cpus (stats r) \<noteq> [] \<and> NaN \<notin> set (cpus (stats r)) \<longrightarrow>
        isMax (maxCPU (stats r)) (cpus (stats r)) \<and> isMin (minCPU (stats r)) (cpus (stats r))) \<and>
     (mems (stats r) \<noteq> [] \<and> NaN \<notin> set (mems (stats r)) \<longrightarrow>
        isMax (maxMem (stats r)) (mems (stats r)) \<and> isMin (minMem (stats r)) (mems (stats r))) \<and>
     (cpus (stats r) = [] \<longrightarrow>
        maxCPU (stats r) = NInf \<and> minCPU (stats r) = PInf \<and>
        maxMem (stats r) = NInf \<and> minMem (stats r) = PInf)"
proof -
  have "paired st"
    using paired_initial assms(1) by (rule paired_run)
  then have len: "length (cpuVals (popped st)) = length (memVals (popped st))"
    by (simp add: paired_def popped_def)
  from handler_record [OF assms(2), of ev e scr err out errs]
  obtain st' r where h: "handleExecFileResult ev e scr err out errs st = Inr st'"
    and a: "appendedOne st st' e r" and s: "stats r = mk_stats (popped st)"
    by blast
  note props = mk_stats_props [OF len, folded s]
  from h a props show ?thesis by blast
qed

section \<open>Claims\<close>

text \<open>
  C5. The verdict is taken on the handle of whatever process the handler pops, not on the
  handle of the test that ended. Engines A and B both have a live process, B's registered
  last; A's child exits with code 0 and closes. The end result is null and the verdict
  predicate accepts A's own handle, yet A's script is recorded as a failure with the
  status \<^verbatim>\<open>error null\<close>, read from B's still-running handle, and nothing is appended to
  \<^verbatim>\<open>testsPassed\<close>.
\<close>

theorem verdict_read_from_other_handle:
  "cl_engine (heap (projr (run env0 5000 (butlast evsTwo) (initial engs0))) 0) = 0 \<and>
   cl_script (heap (projr (run env0 5000 (butlast evsTwo) (initial engs0))) 0) = ''tests/t.js'' \<and>
   closeEndResult (Some 0) None = None \<and>
   checkIfProcessFinishedCorrectly env0
     (childProcess (obj (heap (projr (run env0 5000 (butlast evsTwo) (initial engs0))) 0))) \<and>
   \<not> checkIfProcessFinishedCorrectly env0
     (childProcess (popped (projr (run env0 5000 (butlast evsTwo) (initial engs0))))) \<and>
   \<not> isl (run env0 5000 evsTwo (initial engs0)) \<and>
   testsPassed (engines (projr (run env0 5000 evsTwo (initial engs0))) 0) = [] \<and>
   map r_script (testsFailed (engines (projr (run env0 5000 evsTwo (initial engs0))) 0)) = [''tests/t.js''] \<and>
   map status (testsFailed (engines (projr (run env0 5000 evsTwo (initial engs0))) 0)) = [''error null'']"
  by (simp add: evsTwo_def samp_def initial_defs core_defs popped_def pidUsageCallback_def
      debugMode_def setExit_def)

text \<open>
  C10. The status of a failure record is built from the exit and signal code of whatever
  process the handler pops. Engines A and B both have a live process, B's registered last;
  A's child exits with code 3 and closes. A's process is not flagged and its exit code 3
  is truthy, yet the record of A's script has the status \<^verbatim>\<open>error null\<close>, read from B's
  handle. With no other process registered the same exit is recorded as \<^verbatim>\<open>error 3\<close>.
\<close>

theorem status_read_from_other_handle:
  "exitCode (childProcess (obj (heap (projr (run env0 5000 (butlast evsExit3) (initial engs0))) 0))) = Some 3 \<and>
   \<not> isTimedOut (obj (heap (projr (run env0 5000 (butlast evsExit3) (initial engs0))) 0)) \<and>
   cl_engine (heap (projr (run env0 5000 (butlast evsExit3) (initial engs0))) 0) = 0 \<and>
   \<not> isl (run env0 5000 evsExit3 (initial engs0)) \<and>
   testsPassed (engines (projr (run env0 5000 evsExit3 (initial engs0))) 0) = [] \<and>
   map r_script (testsFailed (engines (projr (run env0 5000 evsExit3 (initial engs0))) 0)) = [''tests/t.js''] \<and>
   map status (testsFailed (engines (projr (run env0 5000 evsExit3 (initial engs0))) 0)) = [''error null''] \<and>
   \<not> isl (run env0 5000 evsAlone3 (initial engs0)) \<and>
   map status (testsFailed (engines (projr (run env0 5000 evsAlone3 (initial engs0))) 0)) = [''error 3'']"
  by (simp add: evsExit3_def evsAlone3_def initial_defs core_defs setExit_def
      show_int_def show_nat.simps digit_def)







text \<open>
  C1. The handler takes the last entry of the one global registry, whichever engine it
  belongs to. Engines A and B both have a live process, B's registered last; the child
  of engine A closes. The handler removes B's process, leaves A's in the registry and
  files, under A's script, a record whose samples and maximum are those of B's process.
\<close>

theorem pop_takes_other_engine:
  "name (engines (initial engs0) 0) = ''A'' \<and>
   \<not> isl (run env0 5000 evsTwo (initial engs0)) \<and>
   PROCESSES (projr (run env0 5000 (butlast evsTwo) (initial engs0))) = [0, 1] \<and>
   cl_engine (heap (projr (run env0 5000 (butlast evsTwo) (initial engs0))) 0) = 0 \<and>
   engine (obj (heap (projr (run env0 5000 (butlast evsTwo) (initial engs0))) 1)) = ''B'' \<and>
   cpuVals (obj (heap (projr (run env0 5000 (butlast evsTwo) (initial engs0))) 0)) = [Fin 3] \<and>
   cpuVals (obj (heap (projr (run env0 5000 (butlast evsTwo) (initial engs0))) 1)) = [Fin 50] \<and>
   PROCESSES (projr (run env0 5000 evsTwo (initial engs0))) = [0] \<and>
   length (testsFailed (engines (projr (run env0 5000 evsTwo (initial engs0))) 0)) = 1 \<and>
   r_script (last (testsFailed (engines (projr (run env0 5000 evsTwo (initial engs0))) 0))) = ''tests/t.js'' \<and>
   cpus (stats (last (testsFailed (engines (projr (run env0 5000 evsTwo (initial engs0))) 0)))) = [Fin 50] \<and>
   maxCPU (stats (last (testsFailed (engines (projr (run env0 5000 evsTwo (initial engs0))) 0)))) = Fin 50"
  by (simp add: evsTwo_def samp_def initial_defs core_defs pidUsageCallback_def debugMode_def
      setExit_def Math_max_def)

text \<open>
  C9. After the query-error path has killed a process and spliced it out of the
  registry, the \<^verbatim>\<open>close\<close> event of that child still runs the handler. With nothing else
  registered the handler throws a TypeError; with another engine's process registered it
  pops that one and files its samples under the killed child's engine.
\<close>

theorem close_after_forced_removal:
  "PROCESSES (projr (run env0 5000 (butlast evsKilled) (initial engs0))) = [] \<and>
   run env0 5000 evsKilled (initial engs0) = Inl TypeError \<and>
   PROCESSES (projr (run env0 5000 (butlast evsKilledTwo) (initial engs0))) = [0] \<and>
   \<not> isl (run env0 5000 evsKilledTwo (initial engs0)) \<and>
   PROCESSES (projr (run env0 5000 evsKilledTwo (initial engs0))) = [] \<and>
   r_script (last (testsFailed (engines (projr (run env0 5000 evsKilledTwo (initial engs0))) 1))) = ''tests/u.js'' \<and>
   cpus (stats (last (testsFailed (engines (projr (run env0 5000 evsKilledTwo (initial engs0))) 1)))) = [Fin 3]"
  by (simp add: evsKilled_def evsKilledTwo_def samp_def initial_defs core_defs pidUsageCallback_def
      debugMode_def splice1_def setExit_def)




text \<open>
  C6. In a tick, for each registered process: when the liveness predicate rejects its
  handle, no query and no kill is issued for it and its flag is untouched; when the
  handle is alive and the time since \<^verbatim>\<open>startTime\<close> has reached \<^verbatim>\<open>TIMEOUT\<close>, it is
  killed with the reason \<^verbatim>\<open><script> timeout\<close>, its flag is set and no query is issued
  for it; when the handle is alive and the elapsed time is below \<^verbatim>\<open>TIMEOUT\<close>, one query
  is issued for its pid and it is neither killed nor flagged.
\<close>

theorem tick_per_process:
  assumes "a \<in> set (PROCESSES st)"
  shows "(\<not> checkIfProcessExists ev (childProcess (obj (heap st a))) \<longrightarrow>
            (\<forall>p. Query p a \<notin> set (emitted st (monitorTick ev T st))) \<and>
            (\<forall>r. Kill a r \<notin> set (emitted st (monitorTick ev T st))) \<and>
            isTimedOut (obj (heap (monitorTick ev T st) a)) = isTimedOut (obj (heap st a))) \<and>
         (checkIfProcessExists ev (childProcess (obj (heap st a))) \<and>
          T \<le> now st - startTime (obj (heap st a)) \<longrightarrow>
            Kill a (script (obj (heap st a)) @ '' timeout'') \<in> set (emitted st (monitorTick ev T st)) \<and>
            isTimedOut (obj (heap (monitorTick ev T st) a)) \<and>
            (\<forall>p. Query p a \<notin> set (emitted st (monitorTick ev T st)))) \<and>
         (checkIfProcessExists ev (childProcess (obj (heap st a))) \<and>
          now st - startTime (obj (heap st a)) < T \<longrightarrow>
            Query (pid (childProcess (obj (heap st a)))) a \<in> set (emitted st (monitorTick ev T st)) \<and>
            (\<forall>r. Kill a r \<notin> set (emitted st (monitorTick ev T st))) \<and>
            isTimedOut (obj (heap (monitorTick ev T st) a)) = isTimedOut (obj (heap st a)))"
proof -
  have flag: "isTimedOut (obj (heap (monitorTick ev T st) a)) =
      (isTimedOut (obj (heap st a)) \<or> flagged ev T st a)"
    using assms by (simp add: monitorTick_def fold_monitor_flag)
  have q: "Query p a \<in> set (emitted st (monitorTick ev T st)) \<longleftrightarrow>
      checkIfProcessExists ev (childProcess (obj (heap st a))) \<and>
      now st - startTime (obj (heap st a)) < T \<and> p = pid (childProcess (obj (heap st a)))" for p
    using assms by (auto simp: tick_emitted tickEffects_cases split: if_splits)
  have k: "Kill a r \<in> set (emitted st (monitorTick ev T st)) \<longleftrightarrow>
      checkIfProcessExists ev (childProcess (obj (heap st a))) \<and>
      \<not> now st - startTime (obj (heap st a)) < T \<and> r = script (obj (heap st a)) @ '' timeout''" for r
    using assms by (auto simp: tick_emitted tickEffects_cases split: if_splits)
  show ?thesis
    unfolding flag q k by (auto simp: flagged_def)
qed

theorem tick_per_process_witness:
  "1 \<in> set (PROCESSES stMon) \<and>
   checkIfProcessExists env0 (childProcess (obj (heap stMon 1))) \<and>
   (2000::real) \<le> now stMon - startTime (obj (heap stMon 1)) \<and>
   Kill 1 ''u.js timeout'' \<in> set (emitted stMon (monitorTick env0 2000 stMon)) \<and>
   isTimedOut (obj (heap (monitorTick env0 2000 stMon) 1)) \<and>
   (\<forall>p. Query p 1 \<notin> set (emitted stMon (monitorTick env0 2000 stMon)))"
proof -
  have h: "1 \<in> set (PROCESSES stMon)"
    by (simp add: stMon_def)
  have x: "checkIfProcessExists env0 (childProcess (obj (heap stMon 1)))"
    by (simp add: stMon_def env0_def mkCell_def)
  have t: "(2000::real) \<le> now stMon - startTime (obj (heap stMon 1))"
    by (simp add: stMon_def mkCell_def)
  have s: "script (obj (heap stMon 1)) = ''u.js''"
    by (simp add: stMon_def mkCell_def)
  from tick_per_process [OF h, of env0 2000] x t s
  have "Kill 1 ''u.js timeout'' \<in> set (emitted stMon (monitorTick env0 2000 stMon)) \<and>
   isTimedOut (obj (heap (monitorTick env0 2000 stMon) 1)) \<and>
   (\<forall>p. Query p 1 \<notin> set (emitted stMon (monitorTick env0 2000 stMon)))"
    by simp
  with h x t show ?thesis by blast
qed

text \<open>
  C7. When the usage query calls back with an error for a registered process whose
  handle is still alive (and no other registered process has its pid), the error is
  printed, the process is killed with the reason \<^verbatim>\<open>error\<close> and taken out of the
  registry at once; no sample is appended and no record is written. When the handle is
  no longer alive the callback does nothing at all, and the rejection handler of a
  process with no sample only prints a warning.
\<close>

theorem query_error_handling:
  "(checkIfProcessExists ev (childProcess (obj (heap st a))) \<and> truthy_err err \<and>
    a \<in> set (PROCESSES st) \<and>
    distinct (PROCESSES st) \<and>
    (\<forall>b\<in>set (PROCESSES st). b \<noteq> a \<longrightarrow>
       pid (childProcess (obj (heap st b))) \<noteq> pid (childProcess (obj (heap st a)))) \<longrightarrow>
      PROCESSES (pidUsageCallback ev err sts a st) = remove1 a (PROCESSES st) \<and>
      a \<notin> set (PROCESSES (pidUsageCallback ev err sts a st)) \<and>
      emitted st (pidUsageCallback ev err sts a st) = [ConsoleError (the err), Kill a ''error''] \<and>
      heap (pidUsageCallback ev err sts a st) = heap st \<and>
      engines (pidUsageCallback ev err sts a st) = engines st) \<and>
   (\<not> checkIfProcessExists ev (childProcess (obj (heap st a))) \<longrightarrow>
      pidUsageCallback ev err sts a st = st) \<and>
   (cpuVals (obj (heap st a)) = [] \<and> memVals (obj (heap st a)) = [] \<longrightarrow>
      (\<exists>w. usageCatch a st = st\<lparr>trace := trace st @ [ConsoleWarn ''#WARN: '' w]\<rparr>))"
proof -
  have dead: "\<not> checkIfProcessExists ev (childProcess (obj (heap st a))) \<longrightarrow>
      pidUsageCallback ev err sts a st = st"
    by (simp add: pidUsageCallback_def Let_def)
  have warn: "cpuVals (obj (heap st a)) = [] \<and> memVals (obj (heap st a)) = [] \<longrightarrow>
      (\<exists>w. usageCatch a st = st\<lparr>trace := trace st @ [ConsoleWarn ''#WARN: '' w]\<rparr>)"
    unfolding usageCatch_def emit_def Let_def by auto
  have kill: "PROCESSES (pidUsageCallback ev err sts a st) = remove1 a (PROCESSES st) \<and>
      a \<notin> set (PROCESSES (pidUsageCallback ev err sts a st)) \<and>
      emitted st (pidUsageCallback ev err sts a st) = [ConsoleError (the err), Kill a ''error''] \<and>
      heap (pidUsageCallback ev err sts a st) = heap st \<and>
      engines (pidUsageCallback ev err sts a st) = engines st"
    if x: "checkIfProcessExists ev (childProcess (obj (heap st a)))" and e: "truthy_err err"
      and r: "a \<in> set (PROCESSES st)"
      and da: "distinct (PROCESSES st)"
      and d: "\<forall>b\<in>set (PROCESSES st). b \<noteq> a \<longrightarrow>
       pid (childProcess (obj (heap st b))) \<noteq> pid (childProcess (obj (heap st a)))"
  proof -
    have sp: "splice1 (findIndex (\<lambda>b. pid (childProcess (obj (heap st b))) = pid (childProcess (obj (heap st a))))
                (PROCESSES st)) (PROCESSES st) = remove1 a (PROCESSES st)"
      using splice1_findIndex [OF r d] .
    have p: "PROCESSES (pidUsageCallback ev err sts a st) = remove1 a (PROCESSES st)"
      using x e sp by (simp add: pidUsageCallback_def Let_def emit_def)
    have rest: "emitted st (pidUsageCallback ev err sts a st) = [ConsoleError (the err), Kill a ''error''] \<and>
      heap (pidUsageCallback ev err sts a st) = heap st \<and>
      engines (pidUsageCallback ev err sts a st) = engines st"
      using x e by (simp add: pidUsageCallback_def Let_def emit_def emitted_def)
    from p da rest show ?thesis by simp
  qed
  from dead warn kill show ?thesis by blast
qed

theorem query_error_handling_witness:
  "checkIfProcessExists env0 (childProcess (obj (heap stTwo 1))) \<and>
   truthy_err (Some (ErrObj ''ESRCH'')) \<and> 1 \<in> set (PROCESSES stTwo) \<and>
   PROCESSES stTwo = [0, 1] \<and>
   pid (childProcess (obj (heap stTwo 0))) \<noteq> pid (childProcess (obj (heap stTwo 1))) \<and>
   PROCESSES (pidUsageCallback env0 (Some (ErrObj ''ESRCH'')) [] 1 stTwo) = [0] \<and>
   emitted stTwo (pidUsageCallback env0 (Some (ErrObj ''ESRCH'')) [] 1 stTwo) =
     [ConsoleError (ErrObj ''ESRCH''), Kill 1 ''error''] \<and>
   \<not> checkIfProcessExists env0 (childProcess (obj (heap stMon 0))) \<and>
   pidUsageCallback env0 (Some (ErrObj ''ESRCH'')) [] 0 stMon = stMon \<and>
   cpuVals (obj (heap stMon 0)) = [] \<and> memVals (obj (heap stMon 0)) = [] \<and>
   (\<exists>w. usageCatch 0 stMon = stMon\<lparr>trace := trace stMon @ [ConsoleWarn ''#WARN: '' w]\<rparr>)"
proof -
  have h1: "checkIfProcessExists env0 (childProcess (obj (heap stTwo 1))) \<and>
   truthy_err (Some (ErrObj ''ESRCH'')) \<and> 1 \<in> set (PROCESSES stTwo) \<and>
   distinct (PROCESSES stTwo) \<and>
   (\<forall>b\<in>set (PROCESSES stTwo). b \<noteq> 1 \<longrightarrow>
       pid (childProcess (obj (heap stTwo b))) \<noteq> pid (childProcess (obj (heap stTwo 1))))"
    by (simp add: stTwo_def env0_def mkCell_def)
  have h2: "\<not> checkIfProcessExists env0 (childProcess (obj (heap stMon 0)))"
    by (simp add: stMon_def env0_def mkCell_def)
  have h3: "cpuVals (obj (heap stMon 0)) = [] \<and> memVals (obj (heap stMon 0)) = []"
    by (simp add: stMon_def mkCell_def)
  have p: "PROCESSES stTwo = [0, 1]"
    by (simp add: stTwo_def)
  have a: "PROCESSES (pidUsageCallback env0 (Some (ErrObj ''ESRCH'')) [] 1 stTwo) = [0] \<and>
   emitted stTwo (pidUsageCallback env0 (Some (ErrObj ''ESRCH'')) [] 1 stTwo) =
     [ConsoleError (ErrObj ''ESRCH''), Kill 1 ''error'']"
    using query_error_handling [of env0 stTwo 1 "Some (ErrObj ''ESRCH'')" "[]"] h1 p by simp
  have b: "pidUsageCallback env0 (Some (ErrObj ''ESRCH'')) [] 0 stMon = stMon"
    using query_error_handling [of env0 stMon 0 "Some (ErrObj ''ESRCH'')" "[]"] h2 by blast
  have c: "\<exists>w. usageCatch 0 stMon = stMon\<lparr>trace := trace stMon @ [ConsoleWarn ''#WARN: '' w]\<rparr>"
    using query_error_handling [of env0 stMon 0 "Some (ErrObj ''ESRCH'')" "[]"] h3 by blast
  have d: "pid (childProcess (obj (heap stTwo 0))) \<noteq> pid (childProcess (obj (heap stTwo 1)))"
    by (simp add: stTwo_def mkCell_def)
  from h1 h2 h3 a b c p d show ?thesis by blast
qed

text \<open>
  C8. The statistics of a record are computed from the samples of whatever process the
  handler pops. Engines A and B both have a live process, B's registered last, each
  sampled twice; A's child exits with code 0 and closes. A's own cpu samples are 3 and 7
  and its memory samples 20 and 10, yet the record of A's script carries B's samples, with
  \<^verbatim>\<open>maxCPU\<close> 50, \<^verbatim>\<open>minCPU\<close> 40, \<^verbatim>\<open>maxMem\<close> 95 and \<^verbatim>\<open>minMem\<close> 90.
\<close>

theorem stats_of_other_process:
  "cl_engine (heap (projr (run env0 5000 (butlast evsStats) (initial engs0))) 0) = 0 \<and>
   cpuVals (obj (heap (projr (run env0 5000 (butlast evsStats) (initial engs0))) 0)) = [Fin 3, Fin 7] \<and>
   memVals (obj (heap (projr (run env0 5000 (butlast evsStats) (initial engs0))) 0)) = [Fin 20, Fin 10] \<and>
   \<not> isl (run env0 5000 evsStats (initial engs0)) \<and>
   testsPassed (engines (projr (run env0 5000 evsStats (initial engs0))) 0) = [] \<and>
   map r_script (testsFailed (engines (projr (run env0 5000 evsStats (initial engs0))) 0)) = [''tests/t.js''] \<and>
   cpus (stats (last (testsFailed (engines (projr (run env0 5000 evsStats (initial engs0))) 0)))) = [Fin 50, Fin 40] \<and>
   mems (stats (last (testsFailed (engines (projr (run env0 5000 evsStats (initial engs0))) 0)))) = [Fin 90, Fin 95] \<and>
   maxCPU (stats (last (testsFailed (engines (projr (run env0 5000 evsStats (initial engs0))) 0)))) = Fin 50 \<and>
   minCPU (stats (last (testsFailed (engines (projr (run env0 5000 evsStats (initial engs0))) 0)))) = Fin 40 \<and>
   maxMem (stats (last (testsFailed (engines (projr (run env0 5000 evsStats (initial engs0))) 0)))) = Fin 95 \<and>
   minMem (stats (last (testsFailed (engines (projr (run env0 5000 evsStats (initial engs0))) 0)))) = Fin 90"
  by (simp add: evsStats_def samp_def initial_defs core_defs pidUsageCallback_def debugMode_def
      setExit_def Math_max_def Math_min_def)

end
